theory Spec2Isabelle
  imports Complex_Main
begin

section \<open>Python values\<close>

text \<open>
  The values the client handles are the ones \<^verbatim>\<open>response.json()\<close> produces: \<^verbatim>\<open>None\<close>,
  \<^verbatim>\<open>bool\<close>, \<^verbatim>\<open>int\<close> (unbounded), \<^verbatim>\<open>float\<close>, \<^verbatim>\<open>str\<close>, \<^verbatim>\<open>list\<close> and \<^verbatim>\<open>dict\<close>.
  A \<^verbatim>\<open>str\<close> is the list of the bytes of its UTF-8 encoding, so \<^verbatim>\<open>+\<close> is \<open>@\<close> and
  \<^verbatim>\<open>.encode()\<close> is the identity. A \<^verbatim>\<open>dict\<close> is the list of its items in insertion order;
  the keys of a Python dict are distinct (\<open>wf_json\<close>). A float is the rational it
  denotes, or one of the three special values \<^verbatim>\<open>json.loads\<close> also accepts.
\<close>

datatype pyfloat = Finite rat | PosInf | NegInf | NaN

datatype json =
    JNull
  | JBool bool
  | JInt int
  | JFloat pyfloat
  | JStr string
  | JArr "json list"
  | JObj "(string \<times> json) list"

fun wf_json :: "json \<Rightarrow> bool" where
  "wf_json (JArr xs) = list_all wf_json xs"
| "wf_json (JObj kvs) = (distinct (map fst kvs) \<and> list_all (\<lambda>kv. wf_json (snd kv)) kvs)"
| "wf_json _ = True"

text \<open>Truth value testing (\<^verbatim>\<open>if x:\<close>, \<^verbatim>\<open>x and y\<close>).\<close>

fun truthy :: "json \<Rightarrow> bool" where
  "truthy JNull = False"
| "truthy (JBool b) = b"
| "truthy (JInt i) = (i \<noteq> 0)"
| "truthy (JFloat f) = (f \<noteq> Finite 0)"
| "truthy (JStr s) = (s \<noteq> [])"
| "truthy (JArr xs) = (xs \<noteq> [])"
| "truthy (JObj kvs) = (kvs \<noteq> [])"

text \<open>The truth value of an \<^verbatim>\<open>Optional[str]\<close> argument: \<^verbatim>\<open>None\<close> and \<^verbatim>\<open>""\<close> are false.\<close>

fun truthy_opt :: "string option \<Rightarrow> bool" where
  "truthy_opt None = False"
| "truthy_opt (Some s) = (s \<noteq> [])"

datatype py_error =
    RequestException string
  | JSONDecodeError
  | TypeError
  | KeyError string
  | AssertionError
  | Exception string

text \<open>\<^verbatim>\<open>key in data\<close> for a \<^verbatim>\<open>str\<close> key.\<close>

fun is_sublist :: "'a list \<Rightarrow> 'a list \<Rightarrow> bool" where
  "is_sublist xs [] = (xs = [])"
| "is_sublist xs (y # ys) = (take (length xs) (y # ys) = xs \<or> is_sublist xs ys)"

fun py_contains :: "json \<Rightarrow> string \<Rightarrow> py_error + bool" where
  "py_contains (JObj kvs) k = Inr (k \<in> fst ` set kvs)"
| "py_contains (JArr xs) k = Inr (JStr k \<in> set xs)"
| "py_contains (JStr s) k = Inr (is_sublist k s)"
| "py_contains _ k = Inl TypeError"

text \<open>\<^verbatim>\<open>data[key]\<close> for a \<^verbatim>\<open>str\<close> key.\<close>

fun py_getitem :: "json \<Rightarrow> string \<Rightarrow> py_error + json" where
  "py_getitem (JObj kvs) k = (case map_of kvs k of None \<Rightarrow> Inl (KeyError k) | Some v \<Rightarrow> Inr v)"
| "py_getitem _ k = Inl TypeError"

subsection \<open>Formatting\<close>

definition digit :: "nat \<Rightarrow> char" where
  "digit d = ''0123456789'' ! d"

function str_nat :: "nat \<Rightarrow> string" where
  "str_nat n = (if n < 10 then [digit n] else str_nat (n div 10) @ [digit (n mod 10)])"
  by pat_completeness auto
termination
  by (relation "measure id") auto

declare str_nat.simps [simp del]

definition str_int :: "int \<Rightarrow> string" where
  "str_int i = (if i < 0 then CHR ''-'' # str_nat (nat (- i)) else str_nat (nat i))"

text \<open>
  The process the code runs in: the environment after \<^verbatim>\<open>load_dotenv()\<close>, and Python's
  \<^verbatim>\<open>repr\<close> of floats, lists and dicts, which an f-string falls back to for them.
\<close>

record runtime =
  environ :: "string \<rightharpoonup> string"
  repr :: "json \<Rightarrow> string"

definition getenv :: "runtime \<Rightarrow> string \<Rightarrow> string \<Rightarrow> string" where
  "getenv rt name dflt = (case environ rt name of None \<Rightarrow> dflt | Some v \<Rightarrow> v)"

text \<open>What \<^verbatim>\<open>f"{v}"\<close> renders.\<close>

fun py_str :: "runtime \<Rightarrow> json \<Rightarrow> string" where
  "py_str rt (JStr s) = s"
| "py_str rt (JInt i) = str_int i"
| "py_str rt (JBool b) = (if b then ''True'' else ''False'')"
| "py_str rt JNull = ''None''"
| "py_str rt v = repr rt v"

subsection \<open>\<^verbatim>\<open>base64.b64encode\<close>\<close>

definition b64_alphabet :: string where
  "b64_alphabet = ''ABCDEFGHIJKLMNOPQRSTUVWXYZabcdefghijklmnopqrstuvwxyz0123456789+/''"

definition b64_char :: "nat \<Rightarrow> char" where
  "b64_char i = b64_alphabet ! i"

fun b64encode :: "string \<Rightarrow> string" where
  "b64encode [] = []"
| "b64encode [a] =
     (let x = of_char a :: nat
      in [b64_char (x div 4), b64_char (x mod 4 * 16), CHR ''='', CHR ''=''])"
| "b64encode [a, b] =
     (let x = of_char a :: nat; y = of_char b :: nat
      in [b64_char (x div 4), b64_char (x mod 4 * 16 + y div 16), b64_char (y mod 16 * 4),
          CHR ''=''])"
| "b64encode (a # b # c # rest) =
     (let x = of_char a :: nat; y = of_char b :: nat; z = of_char c :: nat
      in [b64_char (x div 4), b64_char (x mod 4 * 16 + y div 16),
          b64_char (y mod 16 * 4 + z div 64), b64_char (z mod 64)] @ b64encode rest)"

section \<open>Endpoint registry (\<^verbatim>\<open>src/endpoints\<close>)\<close>

type_synonym headers = "string \<rightharpoonup> string"

definition BASE_URL :: "runtime \<Rightarrow> string" where
  "BASE_URL rt = getenv rt ''BASE_URL'' ''https://restful-booker.herokuapp.com''"

definition HEADERS :: headers where
  "HEADERS = [''Content-Type'' \<mapsto> ''application/json'', ''Accept'' \<mapsto> ''application/json'']"

definition HEADERS_XML :: headers where
  "HEADERS_XML = [''Content-Type'' \<mapsto> ''text/xml'', ''Accept'' \<mapsto> ''application/xml'']"

definition HEADERS_URLENCODED :: headers where
  "HEADERS_URLENCODED =
     [''Content-Type'' \<mapsto> ''application/x-www-form-urlencoded'', ''Accept'' \<mapsto> ''application/json'']"

definition AUTH_ENDPOINT :: "runtime \<Rightarrow> string" where
  "AUTH_ENDPOINT rt = BASE_URL rt @ ''/auth''"

definition DEFAULT_USERNAME :: "runtime \<Rightarrow> string" where
  "DEFAULT_USERNAME rt = getenv rt ''API_USERNAME'' ''admin''"

definition DEFAULT_PASSWORD :: "runtime \<Rightarrow> string" where
  "DEFAULT_PASSWORD rt = getenv rt ''API_PASSWORD'' ''password123''"

definition BOOKING_ENDPOINT :: "runtime \<Rightarrow> string" where
  "BOOKING_ENDPOINT rt = BASE_URL rt @ ''/booking''"


definition get_booking_url :: "runtime \<Rightarrow> json \<Rightarrow> string" where
  "get_booking_url rt booking_id = BOOKING_ENDPOINT rt @ ''/'' @ py_str rt booking_id"

definition get_auth_header :: "runtime \<Rightarrow> json \<Rightarrow> headers" where
  "get_auth_header rt token = HEADERS(''Cookie'' \<mapsto> ''token='' @ py_str rt token)"

text \<open>An argument with a default is an option: \<open>None\<close> when the call leaves it out.\<close>

definition get_basic_auth_header :: "runtime \<Rightarrow> string option \<Rightarrow> string option \<Rightarrow> headers" where
  "get_basic_auth_header rt username password =
     (let u = (case username of None \<Rightarrow> DEFAULT_USERNAME rt | Some x \<Rightarrow> x);
          p = (case password of None \<Rightarrow> DEFAULT_PASSWORD rt | Some x \<Rightarrow> x);
          credentials = b64encode (u @ '':'' @ p)
      in HEADERS(''Authorization'' \<mapsto> ''Basic '' @ credentials))"

section \<open>The API client (\<^verbatim>\<open>src/api_client.py\<close>)\<close>

text \<open>
  A request is what the client hands to a verb of its \<^verbatim>\<open>requests.Session\<close>: the URL and the
  keyword arguments. The session, the network and the remote API are the environment: a
  function from the request and the state of the world to a response, or to the exception
  the call raises, and the next state of the world.
\<close>

datatype http_method = GET | POST | PUT | PATCH | DELETE

record kwargs =
  params :: "(string \<rightharpoonup> string) option"
  json_kw :: "json option"
  data_kw :: "string option"
  headers :: "headers option"

definition no_kwargs :: kwargs where
  "no_kwargs = \<lparr>params = None, json_kw = None, data_kw = None, headers = None\<rparr>"

record request =
  verb :: http_method
  url :: string
  kw :: kwargs

text \<open>
  \<open>json_body\<close> is what \<^verbatim>\<open>response.json()\<close> returns, \<open>None\<close> when the body is not JSON and
  the call raises.
\<close>

record response =
  status_code :: int
  text_body :: string
  json_body :: "json option"

type_synonym 'w session = "request \<Rightarrow> 'w \<Rightarrow> (py_error + response) \<times> 'w"

definition response_json :: "response \<Rightarrow> py_error + json" where
  "response_json r = (case json_body r of None \<Rightarrow> Inl JSONDecodeError | Some v \<Rightarrow> Inr v)"

record client =
  token :: json

definition init_client :: client where
  "init_client = \<lparr>token = JNull\<rparr>"

definition create_token ::
  "runtime \<Rightarrow> 'w session \<Rightarrow> string option \<Rightarrow> string option \<Rightarrow> client \<Rightarrow> 'w
     \<Rightarrow> (py_error + response) \<times> client \<times> 'w" where
  "create_token rt sess username password self w =
     (let u = (case username of None \<Rightarrow> DEFAULT_USERNAME rt | Some x \<Rightarrow> x);
          p = (case password of None \<Rightarrow> DEFAULT_PASSWORD rt | Some x \<Rightarrow> x);
          payload = JObj [(''username'', JStr u), (''password'', JStr p)];
          (res, w') = sess \<lparr>verb = POST, url = AUTH_ENDPOINT rt,
                             kw = no_kwargs\<lparr>json_kw := Some payload, headers := Some HEADERS\<rparr>\<rparr> w
      in case res of
           Inl e \<Rightarrow> (Inl e, self, w')
         | Inr response \<Rightarrow>
             if status_code response = 200 then
               (case response_json response of
                  Inl e \<Rightarrow> (Inl e, self, w')
                | Inr data \<Rightarrow>
                    (case py_contains data ''token'' of
                       Inl e \<Rightarrow> (Inl e, self, w')
                     | Inr False \<Rightarrow> (Inr response, self, w')
                     | Inr True \<Rightarrow>
                         (case py_getitem data ''token'' of
                            Inl e \<Rightarrow> (Inl e, self, w')
                          | Inr v \<Rightarrow> (Inr response, self\<lparr>token := v\<rparr>, w'))))
             else (Inr response, self, w'))"



definition get_booking_ids ::
  "runtime \<Rightarrow> 'w session \<Rightarrow> string option \<Rightarrow> string option \<Rightarrow> string option \<Rightarrow> string option
     \<Rightarrow> client \<Rightarrow> 'w \<Rightarrow> (py_error + response) \<times> 'w" where
  "get_booking_ids rt sess firstname lastname checkin checkout self w =
     (let ps = Map.empty;
          ps = (if truthy_opt firstname then ps(''firstname'' \<mapsto> the firstname) else ps);
          ps = (if truthy_opt lastname then ps(''lastname'' \<mapsto> the lastname) else ps);
          ps = (if truthy_opt checkin then ps(''checkin'' \<mapsto> the checkin) else ps);
          ps = (if truthy_opt checkout then ps(''checkout'' \<mapsto> the checkout) else ps)
      in sess \<lparr>verb = GET, url = BOOKING_ENDPOINT rt,
               kw = no_kwargs\<lparr>params := Some ps, headers := Some HEADERS\<rparr>\<rparr> w)"

definition get_booking ::
  "runtime \<Rightarrow> 'w session \<Rightarrow> json \<Rightarrow> string option \<Rightarrow> client \<Rightarrow> 'w \<Rightarrow> (py_error + response) \<times> 'w" where
  "get_booking rt sess booking_id accept self w =
     (let a = (case accept of None \<Rightarrow> ''application/json'' | Some x \<Rightarrow> x);
          hdrs = HEADERS(''Accept'' \<mapsto> a)
      in sess \<lparr>verb = GET, url = get_booking_url rt booking_id,
               kw = no_kwargs\<lparr>headers := Some hdrs\<rparr>\<rparr> w)"


definition update_booking ::
  "runtime \<Rightarrow> 'w session \<Rightarrow> json \<Rightarrow> json \<Rightarrow> bool option \<Rightarrow> client \<Rightarrow> 'w
     \<Rightarrow> (py_error + response) \<times> 'w" where
  "update_booking rt sess booking_id booking_data use_token self w =
     (let ut = (case use_token of None \<Rightarrow> True | Some b \<Rightarrow> b);
          hdrs = (if ut \<and> truthy (token self) then get_auth_header rt (token self)
                  else get_basic_auth_header rt None None)
      in sess \<lparr>verb = PUT, url = get_booking_url rt booking_id,
               kw = no_kwargs\<lparr>json_kw := Some booking_data, headers := Some hdrs\<rparr>\<rparr> w)"

definition partial_update_booking ::
  "runtime \<Rightarrow> 'w session \<Rightarrow> json \<Rightarrow> json \<Rightarrow> bool option \<Rightarrow> client \<Rightarrow> 'w
     \<Rightarrow> (py_error + response) \<times> 'w" where
  "partial_update_booking rt sess booking_id booking_data use_token self w =
     (let ut = (case use_token of None \<Rightarrow> True | Some b \<Rightarrow> b);
          hdrs = (if ut \<and> truthy (token self) then get_auth_header rt (token self)
                  else get_basic_auth_header rt None None)
      in sess \<lparr>verb = PATCH, url = get_booking_url rt booking_id,
               kw = no_kwargs\<lparr>json_kw := Some booking_data, headers := Some hdrs\<rparr>\<rparr> w)"

definition delete_booking ::
  "runtime \<Rightarrow> 'w session \<Rightarrow> json \<Rightarrow> bool option \<Rightarrow> client \<Rightarrow> 'w \<Rightarrow> (py_error + response) \<times> 'w" where
  "delete_booking rt sess booking_id use_token self w =
     (let ut = (case use_token of None \<Rightarrow> True | Some b \<Rightarrow> b);
          hdrs = (if ut \<and> truthy (token self) then get_auth_header rt (token self)
                  else get_basic_auth_header rt None None)
      in sess \<lparr>verb = DELETE, url = get_booking_url rt booking_id,
               kw = no_kwargs\<lparr>headers := Some hdrs\<rparr>\<rparr> w)"







subsection \<open>Observing a call\<close>

text \<open>
  What a call does on the wire is read off a log: the session is wrapped so that it
  appends every request it is handed, with the answer it gave, to a list kept beside the
  state of the world. The wrapper changes neither the answers nor the world.
\<close>

type_synonym exchange = "request \<times> (py_error + response)"

definition recording :: "'w session \<Rightarrow> (exchange list \<times> 'w) session" where
  "recording sess req lw =
     (case sess req (snd lw) of (res, w') \<Rightarrow> (res, (fst lw @ [(req, res)], w')))"

definition exchanges :: "'a \<times> exchange list \<times> 'w \<Rightarrow> exchange list" where
  "exchanges r = fst (snd r)"

text \<open>The request and the answer of a call that made one exchange.\<close>

definition request_of :: "'a \<times> exchange list \<times> 'w \<Rightarrow> request" where
  "request_of r = fst (hd (exchanges r))"

definition answer_of :: "'a \<times> exchange list \<times> 'w \<Rightarrow> py_error + response" where
  "answer_of r = snd (hd (exchanges r))"

definition header :: "request \<Rightarrow> string \<Rightarrow> string option" where
  "header req name = (case headers (kw req) of None \<Rightarrow> None | Some h \<Rightarrow> h name)"

definition query :: "request \<Rightarrow> string \<Rightarrow> string option" where
  "query req name = (case params (kw req) of None \<Rightarrow> None | Some p \<Rightarrow> p name)"

text \<open>The \<^verbatim>\<open>token\<close> field of a response: the value under that key when the body is a
  JSON object that has it.\<close>

definition token_field :: "response \<Rightarrow> json option" where
  "token_field r = (case json_body r of Some (JObj kvs) \<Rightarrow> map_of kvs ''token'' | _ \<Rightarrow> None)"

definition is_2xx :: "response \<Rightarrow> bool" where
  "is_2xx r = (200 \<le> status_code r \<and> status_code r < 300)"

text \<open>Fixed values for closed examples: an empty environment, a session that gives every
  request the same answer.\<close>

definition rt0 :: runtime where
  "rt0 = \<lparr>environ = Map.empty, repr = (\<lambda>v. ''?'')\<rparr>"

definition answering :: "py_error + response \<Rightarrow> unit session" where
  "answering a req w = (a, w)"

definition resp :: "int \<Rightarrow> json option \<Rightarrow> response" where
  "resp code body = \<lparr>status_code = code, text_body = [], json_body = body\<rparr>"


section \<open>Response schemas (\<^verbatim>\<open>src/schemas.py\<close>)\<close>

text \<open>
  The schemas are data; the tests hand them to \<^verbatim>\<open>jsonschema.validate\<close>. A schema is the
  record of the five keywords the file uses, an absent keyword having the value under
  which it constrains nothing: no \<^verbatim>\<open>type\<close>, nothing required, no properties,
  additional properties allowed, no \<^verbatim>\<open>items\<close>.
\<close>

datatype jtype = TNull | TBoolean | TInteger | TNumber | TString | TArray | TObject

datatype schema =
  Schema (type_kw: "jtype list option") (required_kw: "string list")
    (properties_kw: "(string \<times> schema) list") (additionalProperties_kw: bool)
    (items_kw: "schema option")

fun float_is_integer :: "pyfloat \<Rightarrow> bool" where
  "float_is_integer (Finite r) = (of_int \<lfloor>r\<rfloor> = r)"
| "float_is_integer _ = False"

text \<open>
  The type check of JSON Schema as \<^verbatim>\<open>jsonschema\<close> implements it: a \<^verbatim>\<open>bool\<close> is not an
  integer, a float without fractional part is one.
\<close>

fun is_type :: "jtype \<Rightarrow> json \<Rightarrow> bool" where
  "is_type TNull v = (v = JNull)"
| "is_type TBoolean v = (case v of JBool _ \<Rightarrow> True | _ \<Rightarrow> False)"
| "is_type TInteger v = (case v of JInt _ \<Rightarrow> True | JFloat f \<Rightarrow> float_is_integer f | _ \<Rightarrow> False)"
| "is_type TNumber v = (case v of JInt _ \<Rightarrow> True | JFloat _ \<Rightarrow> True | _ \<Rightarrow> False)"
| "is_type TString v = (case v of JStr _ \<Rightarrow> True | _ \<Rightarrow> False)"
| "is_type TArray v = (case v of JArr _ \<Rightarrow> True | _ \<Rightarrow> False)"
| "is_type TObject v = (case v of JObj _ \<Rightarrow> True | _ \<Rightarrow> False)"

definition type_ok :: "jtype list option \<Rightarrow> json \<Rightarrow> bool" where
  "type_ok ty inst = (case ty of None \<Rightarrow> True | Some ts \<Rightarrow> \<exists>t\<in>set ts. is_type t inst)"

lemma size_map_of_schema:
  "map_of props k = Some s \<Longrightarrow> size s < Suc (size_list (size_prod (\<lambda>_. 0) size) props)"
  by (induction props) (auto split: if_splits)

text \<open>
  \<^verbatim>\<open>validate(instance, schema)\<close> returns when \<open>validate schema instance\<close> holds and raises
  \<^verbatim>\<open>ValidationError\<close> otherwise. \<^verbatim>\<open>required\<close>, \<^verbatim>\<open>properties\<close> and
  \<^verbatim>\<open>additionalProperties\<close> constrain objects only, \<^verbatim>\<open>items\<close> arrays only.
\<close>

function validate :: "schema \<Rightarrow> json \<Rightarrow> bool" where
  "validate (Schema ty req props addl items) inst =
     (type_ok ty inst \<and>
      (case inst of
         JObj kvs \<Rightarrow>
           (\<forall>r\<in>set req. r \<in> fst ` set kvs) \<and>
           (\<forall>kv\<in>set kvs. case map_of props (fst kv) of
                              Some s \<Rightarrow> validate s (snd kv)
                            | None \<Rightarrow> addl)
       | JArr xs \<Rightarrow> (case items of None \<Rightarrow> True | Some s \<Rightarrow> \<forall>x\<in>set xs. validate s x)
       | _ \<Rightarrow> True))"
  by pat_completeness auto
termination
  by (relation "measure (\<lambda>(s, j). size s)") (auto dest: size_map_of_schema)

declare validate.simps [simp del]

text \<open>\<^verbatim>\<open>{"type": t}\<close> and \<^verbatim>\<open>{"type": [t, ...]}\<close>.\<close>

definition of_type :: "jtype list \<Rightarrow> schema" where
  "of_type ts = Schema (Some ts) [] [] True None"

definition BOOKING_DATES_SCHEMA :: schema where
  "BOOKING_DATES_SCHEMA =
     Schema (Some [TObject]) [''checkin'', ''checkout'']
       [(''checkin'', of_type [TString]), (''checkout'', of_type [TString])]
       False None"

definition BOOKING_SCHEMA :: schema where
  "BOOKING_SCHEMA =
     Schema (Some [TObject])
       [''firstname'', ''lastname'', ''totalprice'', ''depositpaid'', ''bookingdates'']
       [(''firstname'', of_type [TString]),
        (''lastname'', of_type [TString]),
        (''totalprice'', of_type [TInteger]),
        (''depositpaid'', of_type [TBoolean]),
        (''bookingdates'', BOOKING_DATES_SCHEMA),
        (''additionalneeds'', of_type [TString, TNull])]
       False None"

definition BOOKING_RESPONSE_SCHEMA :: schema where
  "BOOKING_RESPONSE_SCHEMA =
     Schema (Some [TObject]) [''bookingid'', ''booking'']
       [(''bookingid'', of_type [TInteger]), (''booking'', BOOKING_SCHEMA)]
       False None"

definition BOOKING_ID_SCHEMA :: schema where
  "BOOKING_ID_SCHEMA =
     Schema (Some [TObject]) [''bookingid''] [(''bookingid'', of_type [TInteger])] False None"

definition BOOKING_IDS_LIST_SCHEMA :: schema where
  "BOOKING_IDS_LIST_SCHEMA = Schema (Some [TArray]) [] [] True (Some BOOKING_ID_SCHEMA)"

definition AUTH_RESPONSE_SCHEMA :: schema where
  "AUTH_RESPONSE_SCHEMA =
     Schema (Some [TObject]) [''token''] [(''token'', of_type [TString])] False None"

definition AUTH_ERROR_SCHEMA :: schema where
  "AUTH_ERROR_SCHEMA =
     Schema (Some [TObject]) [''reason''] [(''reason'', of_type [TString])] False None"

text \<open>The five object schemas a response is checked against.\<close>

definition response_schemas :: "schema list" where
  "response_schemas =
     [BOOKING_SCHEMA, BOOKING_RESPONSE_SCHEMA, BOOKING_ID_SCHEMA, AUTH_RESPONSE_SCHEMA,
      AUTH_ERROR_SCHEMA]"

section \<open>Data models (\<^verbatim>\<open>src/models.py\<close>)\<close>

text \<open>
  A pydantic model is the record of its fields; constructing one from values that already
  have the fields' types checks the constraints the \<^verbatim>\<open>Field\<close> declarations carry and
  raises a \<^verbatim>\<open>ValidationError\<close> listing every field that breaks one.
\<close>

record BookingDates =
  checkin :: string
  checkout :: string

record Booking =
  firstname :: string
  lastname :: string
  totalprice :: int
  depositpaid :: bool
  bookingdates :: BookingDates
  additionalneeds :: "string option"

datatype field_error = string_too_short string | greater_than_equal string

definition Booking_init ::
  "string \<Rightarrow> string \<Rightarrow> int \<Rightarrow> bool \<Rightarrow> BookingDates \<Rightarrow> string option \<Rightarrow> field_error list + Booking" where
  "Booking_init fname lname price deposit dates needs =
     (let errors =
            (if length fname < 1 then [string_too_short ''firstname''] else []) @
            (if length lname < 1 then [string_too_short ''lastname''] else []) @
            (if \<not> price \<ge> 0 then [greater_than_equal ''totalprice''] else [])
      in if errors = []
         then Inr \<lparr>firstname = fname, lastname = lname, totalprice = price, depositpaid = deposit,
                    bookingdates = dates, additionalneeds = needs\<rparr>
         else Inl errors)"

text \<open>The payload with these values, as the test data writes it: \<^verbatim>\<open>additionalneeds\<close> is
  left out when there is none.\<close>

definition booking_payload ::
  "string \<Rightarrow> string \<Rightarrow> int \<Rightarrow> bool \<Rightarrow> BookingDates \<Rightarrow> string option \<Rightarrow> json" where
  "booking_payload fname lname price deposit dates needs =
     JObj ([(''firstname'', JStr fname), (''lastname'', JStr lname), (''totalprice'', JInt price),
            (''depositpaid'', JBool deposit),
            (''bookingdates'',
               JObj [(''checkin'', JStr (checkin dates)), (''checkout'', JStr (checkout dates))])]
           @ (case needs of None \<Rightarrow> [] | Some a \<Rightarrow> [(''additionalneeds'', JStr a)]))"

section \<open>Fixtures (\<^verbatim>\<open>tests/conftest.py\<close>)\<close>












section \<open>Properties\<close>

subsection \<open>Auxiliary facts\<close>

lemma recording_apply:
  "recording sess req (lg, w) = (fst (sess req w), lg @ [(req, fst (sess req w))], snd (sess req w))"
  by (simp add: recording_def split: prod.splits)

lemma b64encode_rfc4648:
  "b64encode [] = []" "b64encode ''f'' = ''Zg==''" "b64encode ''fo'' = ''Zm8=''"
  "b64encode ''foo'' = ''Zm9v''" "b64encode ''foob'' = ''Zm9vYg==''"
  "b64encode ''fooba'' = ''Zm9vYmE=''" "b64encode ''foobar'' = ''Zm9vYmFy''"
  by (simp_all add: b64_char_def b64_alphabet_def)

lemma default_credentials_rt0:
  "DEFAULT_USERNAME rt0 = ''admin''" "DEFAULT_PASSWORD rt0 = ''password123''"
  by (simp_all add: DEFAULT_USERNAME_def DEFAULT_PASSWORD_def getenv_def rt0_def)

lemma b64encode_default_credentials:
  "b64encode ''admin:password123'' = ''YWRtaW46cGFzc3dvcmQxMjM=''"
  by (simp add: b64_char_def b64_alphabet_def)

text \<open>
  Claim C6. For every token string \<open>t\<close>, \<open>get_auth_header\<close> gives headers whose
  \<^verbatim>\<open>Cookie\<close> is \<^verbatim>\<open>token=\<close> followed by \<open>t\<close>; for every username \<open>u\<close> and password \<open>p\<close>,
  \<open>get_basic_auth_header\<close> gives headers whose \<^verbatim>\<open>Authorization\<close> is \<^verbatim>\<open>Basic\<close>, a space
  and the base64 encoding of \<open>u:p\<close> (of the default credentials when none are passed);
  both keep the two entries of the common JSON headers.
\<close>

theorem auth_header_forms:
  "get_auth_header rt (JStr t) ''Cookie'' = Some (''token='' @ t) \<and>
   get_basic_auth_header rt (Some u) (Some p) ''Authorization''
     = Some (''Basic '' @ b64encode (u @ '':'' @ p)) \<and>
   get_basic_auth_header rt None None ''Authorization''
     = Some (''Basic '' @ b64encode (DEFAULT_USERNAME rt @ '':'' @ DEFAULT_PASSWORD rt)) \<and>
   get_auth_header rt (JStr t) ''Content-Type'' = Some ''application/json'' \<and>
   get_auth_header rt (JStr t) ''Accept'' = Some ''application/json'' \<and>
   get_basic_auth_header rt (Some u) (Some p) ''Content-Type'' = Some ''application/json'' \<and>
   get_basic_auth_header rt (Some u) (Some p) ''Accept'' = Some ''application/json'' \<and>
   HEADERS ''Content-Type'' = Some ''application/json'' \<and>
   HEADERS ''Accept'' = Some ''application/json'' \<and>
   dom HEADERS = {''Content-Type'', ''Accept''}"
  by (auto simp add: get_auth_header_def get_basic_auth_header_def HEADERS_def)

theorem auth_header_forms_witness:
  "get_auth_header rt0 (JStr ''abc123'') ''Cookie'' = Some ''token=abc123'' \<and>
   get_basic_auth_header rt0 (Some ''admin'') (Some ''password123'') ''Authorization''
     = Some ''Basic YWRtaW46cGFzc3dvcmQxMjM=''"
  using auth_header_forms [of rt0 "''abc123''" "''admin''" "''password123''"]
  by (simp add: b64_char_def b64_alphabet_def)

lemma get_booking_exchanges:
  "exchanges (get_booking rt (recording sess) booking_id accept self ([], w)) =
     (let req = \<lparr>verb = GET, url = get_booking_url rt booking_id,
                  kw = \<lparr>params = None, json_kw = None, data_kw = None,
                        headers = Some (HEADERS(''Accept'' \<mapsto>
                           (case accept of None \<Rightarrow> ''application/json'' | Some a \<Rightarrow> a)))\<rparr>\<rparr>
      in [(req, fst (sess req w))])"
  by (simp add: get_booking_def recording_apply exchanges_def Let_def no_kwargs_def)

text \<open>
  Claim C10. \<open>get_booking\<close> makes one GET request; its \<^verbatim>\<open>Accept\<close> header is the
  \<open>accept\<close> argument, \<^verbatim>\<open>application/json\<close> when the argument is left out, and its
  \<^verbatim>\<open>Content-Type\<close> header is \<^verbatim>\<open>application/json\<close> whatever the argument.
\<close>

theorem get_booking_accept_header:
  "length (exchanges (get_booking rt (recording sess) booking_id accept self ([], w))) = 1 \<and>
   verb (request_of (get_booking rt (recording sess) booking_id accept self ([], w))) = GET \<and>
   header (request_of (get_booking rt (recording sess) booking_id accept self ([], w))) ''Accept''
     = Some (case accept of None \<Rightarrow> ''application/json'' | Some a \<Rightarrow> a) \<and>
   header (request_of (get_booking rt (recording sess) booking_id accept self ([], w))) ''Content-Type''
     = Some ''application/json''"
  unfolding request_of_def get_booking_exchanges Let_def
  by (simp add: header_def HEADERS_def)

theorem get_booking_accept_header_witness:
  "header (request_of (get_booking rt0 (recording (answering (Inr (resp 418 None))))
       (JInt 1) (Some ''text/html'') init_client ([], ()))) ''Accept'' = Some ''text/html''"
  using get_booking_accept_header [of rt0 "answering (Inr (resp 418 None))"
       "JInt 1" "Some ''text/html''" init_client "()"]
  by simp

text \<open>
  Claim C5. \<open>get_booking_ids\<close> makes one GET request. Each of the four filters is among
  its query parameters exactly when the argument was passed and is a non-empty string,
  and then with the value passed; no other parameter is sent.
\<close>

theorem get_booking_ids_params:
  "length (exchanges (get_booking_ids rt (recording sess) fname lname cin cout self ([], w))) = 1 \<and>
   (let req = request_of (get_booking_ids rt (recording sess) fname lname cin cout self ([], w))
    in verb req = GET \<and> params (kw req) \<noteq> None \<and>
       query req ''firstname'' = (if truthy_opt fname then fname else None) \<and>
       query req ''lastname'' = (if truthy_opt lname then lname else None) \<and>
       query req ''checkin'' = (if truthy_opt cin then cin else None) \<and>
       query req ''checkout'' = (if truthy_opt cout then cout else None) \<and>
       (\<forall>k. k \<notin> {''firstname'', ''lastname'', ''checkin'', ''checkout''} \<longrightarrow> query req k = None))"
proof -
  define ps where "ps =
     (let ps = Map.empty;
          ps = (if truthy_opt fname then ps(''firstname'' \<mapsto> the fname) else ps);
          ps = (if truthy_opt lname then ps(''lastname'' \<mapsto> the lname) else ps);
          ps = (if truthy_opt cin then ps(''checkin'' \<mapsto> the cin) else ps);
          ps = (if truthy_opt cout then ps(''checkout'' \<mapsto> the cout) else ps)
      in ps)"
  define req where "req = \<lparr>verb = GET, url = BOOKING_ENDPOINT rt,
     kw = no_kwargs\<lparr>params := Some ps, headers := Some HEADERS\<rparr>\<rparr>"
  have call: "get_booking_ids rt (recording sess) fname lname cin cout self ([], w)
      = recording sess req ([], w)"
    unfolding ps_def req_def get_booking_ids_def Let_def by (rule refl)
  have some: "\<And>x. truthy_opt x \<Longrightarrow> Some (the x) = x"
    by (case_tac x) simp_all
  have ps: "ps = (\<lambda>k. if k = ''checkout'' \<and> truthy_opt cout then cout
              else if k = ''checkin'' \<and> truthy_opt cin then cin
              else if k = ''lastname'' \<and> truthy_opt lname then lname
              else if k = ''firstname'' \<and> truthy_opt fname then fname
              else None)"
    unfolding ps_def Let_def by (simp add: fun_eq_iff some)
  have ex: "exchanges (get_booking_ids rt (recording sess) fname lname cin cout self ([], w))
      = [(req, fst (sess req w))]"
    unfolding call by (simp add: recording_apply exchanges_def)
  have q: "\<And>k. query req k = ps k"
    by (simp add: query_def req_def)
  have m: "verb req = GET" "params (kw req) \<noteq> None"
    by (simp_all add: req_def)
  show ?thesis
    unfolding request_of_def ex Let_def
    using m by (simp add: q ps)
qed

theorem get_booking_ids_params_witness:
  "''page'' \<notin> {''firstname'', ''lastname'', ''checkin'', ''checkout''} \<and>
   (let req = request_of (get_booking_ids rt0 (recording (answering (Inr (resp 200 (Some (JArr []))))))
       (Some ''Jim'') (Some []) None (Some ''2024-12-31'') init_client ([], ()))
    in query req ''firstname'' = Some ''Jim'' \<and> query req ''lastname'' = None \<and>
       query req ''checkin'' = None \<and> query req ''checkout'' = Some ''2024-12-31'' \<and>
       query req ''page'' = None)"
  using get_booking_ids_params [of rt0 "answering (Inr (resp 200 (Some (JArr []))))"
       "Some ''Jim''" "Some []" None "Some ''2024-12-31''" init_client "()"]
  by (simp add: Let_def)

lemma py_token_lookup:
  "py_contains (JObj kvs) k = Inr (map_of kvs k \<noteq> None)"
  by (simp add: map_of_eq_None_iff)

lemma create_token_unfold:
  assumes "req = \<lparr>verb = POST, url = AUTH_ENDPOINT rt,
                  kw = \<lparr>params = None,
                        json_kw = Some (JObj [(''username'', JStr (case username of None \<Rightarrow> DEFAULT_USERNAME rt | Some x \<Rightarrow> x)),
                                              (''password'', JStr (case password of None \<Rightarrow> DEFAULT_PASSWORD rt | Some x \<Rightarrow> x))]),
                        data_kw = None, headers = Some HEADERS\<rparr>\<rparr>"
    and "sess req w = (ans, w')"
  shows "create_token rt sess username password self w =
     (case ans of
           Inl e \<Rightarrow> (Inl e, self, w')
         | Inr r \<Rightarrow>
             if status_code r = 200 then
               (case json_body r of
                  None \<Rightarrow> (Inl JSONDecodeError, self, w')
                | Some (JObj kvs) \<Rightarrow>
                    (case map_of kvs ''token'' of
                       None \<Rightarrow> (Inr r, self, w')
                     | Some v \<Rightarrow> (Inr r, self\<lparr>token := v\<rparr>, w'))
                | Some (JArr xs) \<Rightarrow>
                    if JStr ''token'' \<in> set xs then (Inl TypeError, self, w') else (Inr r, self, w')
                | Some (JStr s) \<Rightarrow>
                    if is_sublist ''token'' s then (Inl TypeError, self, w') else (Inr r, self, w')
                | Some _ \<Rightarrow> (Inl TypeError, self, w'))
             else (Inr r, self, w'))" (is "_ = ?rhs")
proof -
  have "create_token rt sess username password self w =
     (case sess req w of (res, w') \<Rightarrow>
        (case res of
           Inl e \<Rightarrow> (Inl e, self, w')
         | Inr response \<Rightarrow>
             if status_code response = 200 then
               (case response_json response of
                  Inl e \<Rightarrow> (Inl e, self, w')
                | Inr data \<Rightarrow>
                    (case py_contains data ''token'' of
                       Inl e \<Rightarrow> (Inl e, self, w')
                     | Inr False \<Rightarrow> (Inr response, self, w')
                     | Inr True \<Rightarrow>
                         (case py_getitem data ''token'' of
                            Inl e \<Rightarrow> (Inl e, self, w')
                          | Inr v \<Rightarrow> (Inr response, self\<lparr>token := v\<rparr>, w'))))
             else (Inr response, self, w')))"
    unfolding create_token_def Let_def no_kwargs_def assms(1) by simp
  also have "\<dots> = ?rhs"
    unfolding assms(2) response_json_def
    by (simp add: py_token_lookup del: py_contains.simps(1)
          split: sum.splits option.splits json.splits bool.splits)
  finally show ?thesis .
qed


text \<open>
  Claim C1. \<open>create_token\<close> makes one POST request to the auth endpoint. When the answer is
  a response with status 200 whose JSON body is an object with a \<^verbatim>\<open>token\<close> field, the
  call returns the response and the client's token is the value of that field. In every
  other case the client's token is what it was; and when the answer is a response with
  another status, the call returns it and leaves the client as it was.
\<close>

theorem create_token_stores_token:
  "let X = create_token rt (recording sess) username password self ([], w);
       res = fst X; self' = fst (snd X)
   in length (exchanges (snd X)) = 1 \<and>
      verb (request_of (snd X)) = POST \<and>
      url (request_of (snd X)) = AUTH_ENDPOINT rt \<and>
      (case answer_of (snd X) of
         Inl e \<Rightarrow> res = Inl e \<and> self' = self
       | Inr r \<Rightarrow>
           (status_code r = 200 \<and> token_field r \<noteq> None \<longrightarrow>
              res = Inr r \<and> Some (token self') = token_field r) \<and>
           (\<not> (status_code r = 200 \<and> token_field r \<noteq> None) \<longrightarrow> token self' = token self) \<and>
           (status_code r \<noteq> 200 \<longrightarrow> res = Inr r \<and> self' = self))"
proof -
  define req where "req = \<lparr>verb = POST, url = AUTH_ENDPOINT rt,
                  kw = \<lparr>params = None,
                        json_kw = Some (JObj [(''username'', JStr (case username of None \<Rightarrow> DEFAULT_USERNAME rt | Some x \<Rightarrow> x)),
                                              (''password'', JStr (case password of None \<Rightarrow> DEFAULT_PASSWORD rt | Some x \<Rightarrow> x))]),
                        data_kw = None, headers = Some HEADERS\<rparr>\<rparr>"
  define ans where "ans = fst (sess req w)"
  define w' where "w' = snd (sess req w)"
  have rec: "recording sess req ([], w) = (ans, [(req, ans)], w')"
    by (simp add: recording_apply ans_def w'_def)
  have r: "verb req = POST" "url req = AUTH_ENDPOINT rt"
    by (simp_all add: req_def)
  note X = create_token_unfold
    [where sess = "recording sess" and w = "([], w)" and self = self, OF req_def rec]
  show ?thesis
  proof (cases ans)
    case (Inl e)
    then show ?thesis
      unfolding Let_def X using r
      by (simp add: exchanges_def request_of_def answer_of_def)
  next
    case (Inr resp)
    then show ?thesis
      unfolding Let_def X using r
      by (simp add: exchanges_def request_of_def answer_of_def token_field_def
            split: option.splits json.splits)
  qed
qed

theorem create_token_stores_token_witness:
  "status_code (resp 200 (Some (JObj [(''token'', JStr ''abc123'')]))) = 200 \<and>
   token_field (resp 200 (Some (JObj [(''token'', JStr ''abc123'')]))) \<noteq> None \<and>
   token (fst (snd (create_token rt0
       (recording (answering (Inr (resp 200 (Some (JObj [(''token'', JStr ''abc123'')]))))))
       None None init_client ([], ())))) = JStr ''abc123''"
proof -
  let ?R = "resp 200 (Some (JObj [(''token'', JStr ''abc123'')]))"
  let ?X = "create_token rt0 (recording (answering (Inr ?R))) None None init_client ([], ())"
  have a: "answer_of (snd ?X) = Inr ?R"
    by (simp add: create_token_def recording_def answering_def Let_def answer_of_def
          exchanges_def resp_def response_json_def)
  have s: "status_code ?R = 200" and t: "token_field ?R = Some (JStr ''abc123'')"
    by (simp_all add: resp_def token_field_def)
  from create_token_stores_token [of rt0 "answering (Inr ?R)" None None init_client "()"]
  have "Some (token (fst (snd ?X))) = token_field ?R"
    unfolding Let_def a using s t by simp
  with s t show ?thesis by simp
qed

lemma auth_header_keys:
  "get_auth_header rt t ''Cookie'' = Some (''token='' @ py_str rt t)"
  "get_auth_header rt t ''Authorization'' = None"
  by (simp_all add: get_auth_header_def HEADERS_def)

lemma basic_auth_header_keys:
  "get_basic_auth_header rt None None ''Authorization''
     = Some (''Basic '' @ b64encode (DEFAULT_USERNAME rt @ '':'' @ DEFAULT_PASSWORD rt))"
  "get_basic_auth_header rt None None ''Cookie'' = None"
  by (simp_all add: get_basic_auth_header_def HEADERS_def)

lemma update_booking_call:
  "update_booking rt sess booking_id booking_data use_token self w =
     sess \<lparr>verb = PUT, url = get_booking_url rt booking_id,
           kw = \<lparr>params = None, json_kw = Some booking_data, data_kw = None,
                 headers = Some (if use_token \<noteq> Some False \<and> truthy (token self)
                                 then get_auth_header rt (token self)
                                 else get_basic_auth_header rt None None)\<rparr>\<rparr> w"
  by (cases use_token) (simp_all add: update_booking_def Let_def no_kwargs_def)

lemma partial_update_booking_call:
  "partial_update_booking rt sess booking_id booking_data use_token self w =
     sess \<lparr>verb = PATCH, url = get_booking_url rt booking_id,
           kw = \<lparr>params = None, json_kw = Some booking_data, data_kw = None,
                 headers = Some (if use_token \<noteq> Some False \<and> truthy (token self)
                                 then get_auth_header rt (token self)
                                 else get_basic_auth_header rt None None)\<rparr>\<rparr> w"
  by (cases use_token) (simp_all add: partial_update_booking_def Let_def no_kwargs_def)

lemma delete_booking_call:
  "delete_booking rt sess booking_id use_token self w =
     sess \<lparr>verb = DELETE, url = get_booking_url rt booking_id,
           kw = \<lparr>params = None, json_kw = None, data_kw = None,
                 headers = Some (if use_token \<noteq> Some False \<and> truthy (token self)
                                 then get_auth_header rt (token self)
                                 else get_basic_auth_header rt None None)\<rparr>\<rparr> w"
  by (cases use_token) (simp_all add: delete_booking_def Let_def no_kwargs_def)

lemma recorded_once:
  "exchanges (recording sess req ([], w)) = [(req, fst (sess req w))]"
  "request_of (recording sess req ([], w)) = req"
  "answer_of (recording sess req ([], w)) = fst (sess req w)"
  by (simp_all add: recording_apply exchanges_def request_of_def answer_of_def)

text \<open>
  Claim C2, amended. Each of \<open>update_booking\<close>, \<open>partial_update_booking\<close> and
  \<open>delete_booking\<close> makes one request. When \<open>use_token\<close> is true (or left out) and the
  client's token is true as a Python value (not \<^verbatim>\<open>None\<close>, not the empty string), the
  headers are \<open>get_auth_header\<close> of the token: a \<^verbatim>\<open>Cookie\<close> of \<^verbatim>\<open>token=\<close> and the token, no
  \<^verbatim>\<open>Authorization\<close>. Otherwise they are the basic-auth headers of the default
  credentials, with no \<^verbatim>\<open>Cookie\<close>.
\<close>

theorem mutating_calls_auth_headers:
  "let U = update_booking rt (recording sess) booking_id booking_data use_token self ([], w);
       P = partial_update_booking rt (recording sess) booking_id booking_data use_token self ([], w);
       D = delete_booking rt (recording sess) booking_id use_token self ([], w);
       chosen = (\<lambda>req.
         if use_token \<noteq> Some False \<and> truthy (token self)
         then headers (kw req) = Some (get_auth_header rt (token self)) \<and>
              header req ''Cookie'' = Some (''token='' @ py_str rt (token self)) \<and>
              header req ''Authorization'' = None
         else headers (kw req) = Some (get_basic_auth_header rt None None) \<and>
              header req ''Authorization''
                = Some (''Basic '' @ b64encode (DEFAULT_USERNAME rt @ '':'' @ DEFAULT_PASSWORD rt)) \<and>
              header req ''Cookie'' = None)
   in length (exchanges U) = 1 \<and> verb (request_of U) = PUT \<and> chosen (request_of U) \<and>
      length (exchanges P) = 1 \<and> verb (request_of P) = PATCH \<and> chosen (request_of P) \<and>
      length (exchanges D) = 1 \<and> verb (request_of D) = DELETE \<and> chosen (request_of D)"
  unfolding Let_def update_booking_call partial_update_booking_call delete_booking_call
    recorded_once
  by (simp add: header_def auth_header_keys basic_auth_header_keys)

theorem mutating_calls_auth_headers_witness:
  "truthy (token \<lparr>token = JStr ''abc123''\<rparr>) \<and>
   header (request_of (delete_booking rt0 (recording (answering (Inr (resp 201 None))))
       (JInt 7) None \<lparr>token = JStr ''abc123''\<rparr> ([], ()))) ''Cookie'' = Some ''token=abc123''"
  using mutating_calls_auth_headers [of rt0 "answering (Inr (resp 201 None))" "JInt 7" JNull None
       "\<lparr>token = JStr ''abc123''\<rparr>" "()"]
  by (simp add: Let_def)

text \<open>
  Claim C2 as stated, a client that holds a token being one whose token is not
  \<^verbatim>\<open>None\<close>, fails for the empty token: the client holds \<^verbatim>\<open>""\<close>, \<open>use_token\<close> is true, and
  the request carries basic-auth headers and no \<^verbatim>\<open>Cookie\<close>.
\<close>

theorem empty_token_falls_back_counterexample:
  "token \<lparr>token = JStr []\<rparr> \<noteq> JNull \<and>
   header (request_of (update_booking rt0 (recording (answering (Inr (resp 200 None))))
       (JInt 1) (JObj []) (Some True) \<lparr>token = JStr []\<rparr> ([], ()))) ''Cookie'' = None \<and>
   header (request_of (update_booking rt0 (recording (answering (Inr (resp 200 None))))
       (JInt 1) (JObj []) (Some True) \<lparr>token = JStr []\<rparr> ([], ()))) ''Authorization''
     = Some ''Basic YWRtaW46cGFzc3dvcmQxMjM=''"
  unfolding update_booking_call recorded_once
  by (simp add: header_def basic_auth_header_keys default_credentials_rt0
        b64_char_def b64_alphabet_def)

text \<open>
  Claim C9. A new client's token is \<^verbatim>\<open>None\<close>, and each of the three mutating calls made on
  it with \<open>use_token\<close> left at its default sends the basic-auth headers of the default
  credentials and no \<^verbatim>\<open>Cookie\<close>.
\<close>

theorem fresh_client_uses_basic_auth:
  "token init_client = JNull \<and>
   (let U = update_booking rt (recording sess) booking_id booking_data None init_client ([], w);
        P = partial_update_booking rt (recording sess) booking_id booking_data None init_client ([], w);
        D = delete_booking rt (recording sess) booking_id None init_client ([], w);
        basic = (\<lambda>req.
          headers (kw req) = Some (get_basic_auth_header rt None None) \<and>
          header req ''Authorization''
            = Some (''Basic '' @ b64encode (DEFAULT_USERNAME rt @ '':'' @ DEFAULT_PASSWORD rt)) \<and>
          header req ''Cookie'' = None)
    in basic (request_of U) \<and> basic (request_of P) \<and> basic (request_of D))"
  unfolding Let_def update_booking_call partial_update_booking_call delete_booking_call
    recorded_once
  by (simp add: header_def basic_auth_header_keys init_client_def)

theorem fresh_client_uses_basic_auth_witness:
  "header (request_of (delete_booking rt0 (recording (answering (Inr (resp 201 None))))
       (JInt 7) None init_client ([], ()))) ''Authorization'' = Some ''Basic YWRtaW46cGFzc3dvcmQxMjM=''"
  using fresh_client_uses_basic_auth [of rt0 "answering (Inr (resp 201 None))" "JInt 7" JNull "()"]
  by (simp add: Let_def default_credentials_rt0 b64_char_def b64_alphabet_def)








subsection \<open>Schemas\<close>

lemma validate_type_ok: "validate S j \<Longrightarrow> type_ok (type_kw S) j"
  by (cases S) (simp add: validate.simps)

lemma validate_closed_object:
  assumes "type_kw S = Some [TObject]" and "\<not> additionalProperties_kw S"
  shows "validate S j \<longleftrightarrow>
     (\<exists>kvs. j = JObj kvs \<and>
        (\<forall>r\<in>set (required_kw S). r \<in> fst ` set kvs) \<and>
        (\<forall>kv\<in>set kvs. \<exists>s. map_of (properties_kw S) (fst kv) = Some s \<and> validate s (snd kv)))"
proof (cases S)
  case (Schema ty req props addl items)
  with assms have ty: "ty = Some [TObject]" and addl: "\<not> addl"
    by simp_all
  show ?thesis
  proof (cases j)
    case (JObj kvs)
    have "\<And>kv. (case map_of props (fst kv) of None \<Rightarrow> addl | Some s \<Rightarrow> validate s (snd kv))
        \<longleftrightarrow> (\<exists>s. map_of props (fst kv) = Some s \<and> validate s (snd kv))"
      using addl by (simp split: option.splits)
    then show ?thesis
      unfolding Schema JObj by (simp add: validate.simps type_ok_def ty)
  qed (simp_all add: Schema validate.simps type_ok_def ty)
qed

lemma response_schemas_closed:
  assumes "S \<in> set response_schemas"
  shows "type_kw S = Some [TObject]" and "\<not> additionalProperties_kw S"
  using assms
  by (auto simp add: response_schemas_def BOOKING_SCHEMA_def BOOKING_RESPONSE_SCHEMA_def
        BOOKING_ID_SCHEMA_def AUTH_RESPONSE_SCHEMA_def AUTH_ERROR_SCHEMA_def)

text \<open>The required fields of the five schemas and the types of their properties.\<close>

lemma response_schemas_fields:
  "map (\<lambda>S. (required_kw S, map (\<lambda>p. (fst p, type_kw (snd p))) (properties_kw S))) response_schemas =
    [([''firstname'', ''lastname'', ''totalprice'', ''depositpaid'', ''bookingdates''],
      [(''firstname'', Some [TString]), (''lastname'', Some [TString]),
       (''totalprice'', Some [TInteger]), (''depositpaid'', Some [TBoolean]),
       (''bookingdates'', Some [TObject]), (''additionalneeds'', Some [TString, TNull])]),
     ([''bookingid'', ''booking''],
      [(''bookingid'', Some [TInteger]), (''booking'', Some [TObject])]),
     ([''bookingid''], [(''bookingid'', Some [TInteger])]),
     ([''token''], [(''token'', Some [TString])]),
     ([''reason''], [(''reason'', Some [TString])])]"
  by (simp add: response_schemas_def BOOKING_SCHEMA_def BOOKING_RESPONSE_SCHEMA_def
        BOOKING_ID_SCHEMA_def AUTH_RESPONSE_SCHEMA_def AUTH_ERROR_SCHEMA_def
        BOOKING_DATES_SCHEMA_def of_type_def)

text \<open>
  Claim C7. For each of the five response schemas, a JSON object fails validation when it
  has a property the schema does not list, when it lacks a required field, and when a
  listed property has a value of another type than the schema gives it. A value
  validates exactly when it is an object that has every required field and whose every
  property is listed and valid against the schema listed for it.
\<close>

theorem response_schemas_strict:
  assumes "S \<in> set response_schemas"
  shows "(k \<in> fst ` set kvs \<and> k \<notin> fst ` set (properties_kw S) \<longrightarrow> \<not> validate S (JObj kvs)) \<and>
     (r \<in> set (required_kw S) \<and> r \<notin> fst ` set kvs \<longrightarrow> \<not> validate S (JObj kvs)) \<and>
     ((k, v) \<in> set kvs \<and> map_of (properties_kw S) k = Some s \<and> \<not> type_ok (type_kw s) v
        \<longrightarrow> \<not> validate S (JObj kvs)) \<and>
     (validate S j \<longleftrightarrow>
        (\<exists>kvs. j = JObj kvs \<and>
           (\<forall>r\<in>set (required_kw S). r \<in> fst ` set kvs) \<and>
           (\<forall>kv\<in>set kvs. \<exists>s. map_of (properties_kw S) (fst kv) = Some s \<and> validate s (snd kv))))"
proof -
  note closed = validate_closed_object [OF response_schemas_closed [OF assms]]
  have extra: "k \<in> fst ` set kvs \<and> k \<notin> fst ` set (properties_kw S) \<longrightarrow> \<not> validate S (JObj kvs)"
  proof (intro impI notI, elim conjE)
    assume "k \<in> fst ` set kvs" and out: "k \<notin> fst ` set (properties_kw S)"
      and "validate S (JObj kvs)"
    then obtain kv s where "kv \<in> set kvs" "fst kv = k" "map_of (properties_kw S) (fst kv) = Some s"
      unfolding closed by auto
    then have "k \<in> fst ` set (properties_kw S)"
      by (metis map_of_eq_None_iff option.distinct(1))
    with out show False by contradiction
  qed
  have missing: "r \<in> set (required_kw S) \<and> r \<notin> fst ` set kvs \<longrightarrow> \<not> validate S (JObj kvs)"
    unfolding closed by auto
  have wrong: "(k, v) \<in> set kvs \<and> map_of (properties_kw S) k = Some s \<and> \<not> type_ok (type_kw s) v
        \<longrightarrow> \<not> validate S (JObj kvs)"
  proof (intro impI notI, elim conjE)
    assume "(k, v) \<in> set kvs" and s: "map_of (properties_kw S) k = Some s"
      and bad: "\<not> type_ok (type_kw s) v" and "validate S (JObj kvs)"
    then obtain s' where "map_of (properties_kw S) k = Some s'" "validate s' v"
      unfolding closed by fastforce
    with s have "validate s v" by simp
    with bad show False by (simp add: validate_type_ok)
  qed
  from extra missing wrong closed show ?thesis
    by (intro conjI)
qed

theorem response_schemas_strict_witness:
  "AUTH_RESPONSE_SCHEMA \<in> set response_schemas \<and>
   \<not> validate AUTH_RESPONSE_SCHEMA (JObj [(''token'', JInt 5)]) \<and>
   \<not> validate AUTH_RESPONSE_SCHEMA (JObj [(''token'', JStr ''abc''), (''expires'', JInt 5)]) \<and>
   \<not> validate AUTH_RESPONSE_SCHEMA (JObj [])"
proof -
  have m: "AUTH_RESPONSE_SCHEMA \<in> set response_schemas"
    by (simp add: response_schemas_def)
  have p: "properties_kw AUTH_RESPONSE_SCHEMA = [(''token'', of_type [TString])]"
    and r: "required_kw AUTH_RESPONSE_SCHEMA = [''token'']"
    by (simp_all add: AUTH_RESPONSE_SCHEMA_def)
  have "\<not> validate AUTH_RESPONSE_SCHEMA (JObj [(''token'', JInt 5)])"
    using response_schemas_strict [where k = "''token''" and v = "JInt 5"
          and kvs = "[(''token'', JInt 5)]" and s = "of_type [TString]", OF m,
        THEN conjunct2, THEN conjunct2, THEN conjunct1]
    by (simp add: p type_ok_def of_type_def)
  moreover have "\<not> validate AUTH_RESPONSE_SCHEMA (JObj [(''token'', JStr ''abc''), (''expires'', JInt 5)])"
    using response_schemas_strict [where k = "''expires''"
          and kvs = "[(''token'', JStr ''abc''), (''expires'', JInt 5)]", OF m, THEN conjunct1]
    by (simp add: p)
  moreover have "\<not> validate AUTH_RESPONSE_SCHEMA (JObj [])"
    using response_schemas_strict [where r = "''token''" and kvs = "[]", OF m,
        THEN conjunct2, THEN conjunct1]
    by (simp add: r)
  ultimately show ?thesis using m by simp
qed

subsection \<open>The booking model\<close>

lemma booking_payload_valid:
  "validate BOOKING_SCHEMA (booking_payload fname lname price deposit dates needs)"
  by (cases needs)
     (simp_all add: booking_payload_def BOOKING_SCHEMA_def BOOKING_DATES_SCHEMA_def of_type_def
        validate.simps type_ok_def)

lemma Booking_init_accepts:
  "Booking_init fname lname price deposit dates needs =
     (if fname \<noteq> [] \<and> lname \<noteq> [] \<and> 0 \<le> price
      then Inr \<lparr>firstname = fname, lastname = lname, totalprice = price, depositpaid = deposit,
                 bookingdates = dates, additionalneeds = needs\<rparr>
      else Inl ((if fname = [] then [string_too_short ''firstname''] else []) @
                (if lname = [] then [string_too_short ''lastname''] else []) @
                (if price < 0 then [greater_than_equal ''totalprice''] else [])))"
  by (simp add: Booking_init_def Let_def)

text \<open>
  Claim C4, amended. \<open>BOOKING_SCHEMA\<close> accepts the payload of every integer price, negative
  ones too, every first and last name, empty ones too, and every well-typed rest. The
  \<open>Booking\<close> model rejects such values exactly when the first name is empty, the last
  name is empty or the price is negative, and otherwise builds the record of them.
\<close>

theorem booking_shape_and_constraints:
  "validate BOOKING_SCHEMA (booking_payload fname lname price deposit dates needs) \<and>
   (isl (Booking_init fname lname price deposit dates needs)
      \<longleftrightarrow> fname = [] \<or> lname = [] \<or> price < 0) \<and>
   (fname \<noteq> [] \<and> lname \<noteq> [] \<and> 0 \<le> price \<longrightarrow>
      Booking_init fname lname price deposit dates needs
        = Inr \<lparr>firstname = fname, lastname = lname, totalprice = price, depositpaid = deposit,
                 bookingdates = dates, additionalneeds = needs\<rparr>)"
  using booking_payload_valid [of fname lname price deposit dates needs]
  by (auto simp add: Booking_init_accepts)

theorem booking_shape_and_constraints_witness:
  "''Jim'' \<noteq> [] \<and> ''Brown'' \<noteq> [] \<and> (0::int) \<le> 111 \<and>
   Booking_init ''Jim'' ''Brown'' 111 True \<lparr>checkin = ''2024-01-01'', checkout = ''2024-01-05''\<rparr>
       (Some ''Breakfast'')
     = Inr \<lparr>firstname = ''Jim'', lastname = ''Brown'', totalprice = 111, depositpaid = True,
             bookingdates = \<lparr>checkin = ''2024-01-01'', checkout = ''2024-01-05''\<rparr>,
             additionalneeds = Some ''Breakfast''\<rparr> \<and>
   validate BOOKING_SCHEMA
     (booking_payload ''Jim'' ''Brown'' 111 True \<lparr>checkin = ''2024-01-01'', checkout = ''2024-01-05''\<rparr>
       (Some ''Breakfast''))"
  using booking_shape_and_constraints [of "''Jim''" "''Brown''" 111 True
      "\<lparr>checkin = ''2024-01-01'', checkout = ''2024-01-05''\<rparr>" "Some ''Breakfast''"]
  by simp

text \<open>
  Claim C4 as stated fails on the model: a price of \<open>-1\<close>, an empty first name and an empty
  last name each raise a validation error.
\<close>

theorem booking_model_rejects_counterexample:
  "Booking_init ''Jim'' ''Brown'' (- 1) True \<lparr>checkin = ''2024-01-01'', checkout = ''2024-01-05''\<rparr> None
     = Inl [greater_than_equal ''totalprice''] \<and>
   Booking_init [] ''Brown'' 111 True \<lparr>checkin = ''2024-01-01'', checkout = ''2024-01-05''\<rparr> None
     = Inl [string_too_short ''firstname''] \<and>
   Booking_init ''Jim'' [] 111 True \<lparr>checkin = ''2024-01-01'', checkout = ''2024-01-05''\<rparr> None
     = Inl [string_too_short ''lastname'']"
  by (simp add: Booking_init_def Let_def)

subsection \<open>Fixture cleanup\<close>








end
